theory Spec2Isabelle
  imports Main "HOL-Library.Multiset" "HOL-Library.Word"
begin

section \<open>Data model\<close>

text \<open>
  A JavaScript string is a sequence of UTF-16 code units and \<open>.length\<close> (which zod's
  \<open>min\<close> and \<open>max\<close> compare) counts code units. Titles are modelled that way. Row
  ids, user ids, object keys and URL path segments are only ever compared for equality;
  they are plain strings.
\<close>

type_synonym jsstring = "16 word list"

text \<open>
  The table \<open>todos\<close> (schema: \<open>id\<close> text primary key, \<open>user_id\<close>, \<open>title\<close>,
  \<open>completed\<close>, \<open>created_at\<close>, \<open>updated_at\<close>, all NOT NULL). The record is a row as a
  \<open>select\<close> returns it; the field \<open>id\<close> is written \<open>id'\<close>. The type of the two time
  stamps is a parameter: the server holds \<open>Date\<close> values (milliseconds since the epoch,
  an \<open>int\<close>), the client receives their JSON serialisation (type \<open>Todo\<close> of
  todo-list.tsx declares them \<open>string\<close>).
\<close>

record 'ts todo =
  id' :: string
  userId :: string
  title :: jsstring
  completed :: bool
  createdAt :: 'ts
  updatedAt :: 'ts

type_synonym row = "int todo"

text \<open>The table: its rows in insertion order.\<close>

type_synonym db = "row list"

text \<open>
  The two readings of the environment a request makes: \<open>crypto.randomUUID()\<close> and
  \<open>new Date()\<close> (milliseconds since the epoch).
\<close>

record env =
  randomUUID :: string
  now :: int

section \<open>The relational store, as the handlers use it\<close>

text \<open>
  A column declared \<open>integer(..., { mode: "timestamp" })\<close> stores a \<open>Date\<close> as whole
  seconds (\<open>Math.floor(ms / 1000)\<close>) and reads it back as \<open>new Date(seconds * 1000)\<close>.
  \<open>timestamp\<close> is the value read back for a value written.
\<close>

definition timestamp :: "int \<Rightarrow> int" where
  "timestamp ms = (ms div 1000) * 1000"

text \<open>
  A \<open>text\<close> column holds UTF-8. A JavaScript string is written to it encoded as UTF-8,
  and a code unit that is a surrogate without its partner (a high surrogate not followed
  by a low one, or a low one not preceded by a high one) has no encoding: U+FFFD is
  written in its place. \<open>text_column\<close> is the string read back for a string written;
  it is the string itself when that is well-formed UTF-16.
\<close>

definition high_surrogate :: "16 word \<Rightarrow> bool" where
  "high_surrogate w = (0xD800 \<le> w \<and> w \<le> 0xDBFF)"

definition low_surrogate :: "16 word \<Rightarrow> bool" where
  "low_surrogate w = (0xDC00 \<le> w \<and> w \<le> 0xDFFF)"

fun text_column :: "jsstring \<Rightarrow> jsstring" where
  "text_column [] = []"
| "text_column [w] = [if high_surrogate w \<or> low_surrogate w then 0xFFFD else w]"
| "text_column (w # v # ws) =
     (if high_surrogate w \<and> low_surrogate v then w # v # text_column ws
      else (if high_surrogate w \<or> low_surrogate w then 0xFFFD else w) # text_column (v # ws))"

fun well_formed :: "jsstring \<Rightarrow> bool" where
  "well_formed [] = True"
| "well_formed [w] = (\<not> (high_surrogate w \<or> low_surrogate w))"
| "well_formed (w # v # ws) =
     (if high_surrogate w \<and> low_surrogate v then well_formed ws
      else \<not> (high_surrogate w \<or> low_surrogate w) \<and> well_formed (v # ws))"

text \<open>\<open>db.select().from(todos).where(p)\<close>\<close>

definition select_where :: "(row \<Rightarrow> bool) \<Rightarrow> db \<Rightarrow> row list" where
  "select_where p d = filter p d"

text \<open>
  \<open>.orderBy(desc(todos.createdAt))\<close>. SQL leaves the order of rows with equal keys
  open; the model keeps them in table order.
\<close>

definition orderBy_desc_createdAt :: "row list \<Rightarrow> row list" where
  "orderBy_desc_createdAt rs = sort_key (\<lambda>r. - createdAt r) rs"

text \<open>\<open>.limit(n)\<close>\<close>

definition limit :: "nat \<Rightarrow> row list \<Rightarrow> row list" where
  "limit n rs = take n rs"

text \<open>\<open>rows[0]\<close>: \<open>undefined\<close> on an empty result, here \<open>None\<close>.\<close>

definition at0 :: "row list \<Rightarrow> row option" where
  "at0 rs = (case rs of [] \<Rightarrow> None | r # _ \<Rightarrow> Some r)"

datatype db_error = UniqueConstraintFailed

text \<open>
  \<open>db.insert(todos).values(r)\<close>: the primary key rejects a row whose \<open>id\<close> is
  already in the table (the statement throws), otherwise the row is appended.
\<close>

definition insert_values :: "row \<Rightarrow> db \<Rightarrow> db_error + db" where
  "insert_values r d =
     (if id' r \<in> set (map id' d) then Inl UniqueConstraintFailed else Inr (d @ [r]))"

text \<open>\<open>db.update(todos).set(f).where(p)\<close>\<close>

definition update_set_where :: "(row \<Rightarrow> row) \<Rightarrow> (row \<Rightarrow> bool) \<Rightarrow> db \<Rightarrow> db" where
  "update_set_where f p d = map (\<lambda>r. if p r then f r else r) d"

text \<open>\<open>db.delete(todos).where(p)\<close>\<close>

definition delete_where :: "(row \<Rightarrow> bool) \<Rightarrow> db \<Rightarrow> db" where
  "delete_where p d = filter (\<lambda>r. \<not> p r) d"

section \<open>Requests, validation and responses\<close>

text \<open>
  A parsed JSON request body. A number carries its literal text (both schemas reject
  every number); an object is its members in source order.
\<close>

datatype json =
    JNull
  | JBool bool
  | JNumber string
  | JString jsstring
  | JArray "json list"
  | JObject "(string \<times> json) list"

text \<open>Member lookup as \<open>JSON.parse\<close> does it: of two members with one key the later wins.\<close>

definition json_member :: "(string \<times> json) list \<Rightarrow> string \<Rightarrow> json option" where
  "json_member kvs k = map_of (rev kvs) k"

text \<open>\<open>z.string().min(1).max(500)\<close>\<close>

definition title_ok :: "jsstring \<Rightarrow> bool" where
  "title_ok s = (1 \<le> length s \<and> length s \<le> 500)"

text \<open>
  \<open>createTodoSchema = z.object({ title: z.string().min(1, "Title is required").max(500) })\<close>:
  the parsed \<open>title\<close>, or \<open>None\<close> when the body is rejected.
\<close>

definition createTodoSchema :: "json \<Rightarrow> jsstring option" where
  "createTodoSchema b =
     (case b of
        JObject kvs \<Rightarrow>
          (case json_member kvs ''title'' of
             Some (JString s) \<Rightarrow> if title_ok s then Some s else None
           | _ \<Rightarrow> None)
      | _ \<Rightarrow> None)"

text \<open>The parsed body of a PATCH: each key is present or absent.\<close>

record updates =
  title_upd :: "jsstring option"
  completed_upd :: "bool option"

text \<open>
  \<open>updateTodoSchema = z.object({ title: z.string().min(1).max(500).optional(),
  completed: z.boolean().optional() })\<close>. An absent key is accepted and stays absent,
  a key of the wrong type (\<open>null\<close> included) is rejected, other keys are dropped.
\<close>

definition updateTodoSchema :: "json \<Rightarrow> updates option" where
  "updateTodoSchema b =
     (case b of
        JObject kvs \<Rightarrow>
          (case json_member kvs ''title'' of
             None \<Rightarrow>
               (case json_member kvs ''completed'' of
                  None \<Rightarrow> Some \<lparr>title_upd = None, completed_upd = None\<rparr>
                | Some (JBool c) \<Rightarrow> Some \<lparr>title_upd = None, completed_upd = Some c\<rparr>
                | Some _ \<Rightarrow> None)
           | Some (JString s) \<Rightarrow>
               (if title_ok s then
                  (case json_member kvs ''completed'' of
                     None \<Rightarrow> Some \<lparr>title_upd = Some s, completed_upd = None\<rparr>
                   | Some (JBool c) \<Rightarrow> Some \<lparr>title_upd = Some s, completed_upd = Some c\<rparr>
                   | Some _ \<Rightarrow> None)
                else None)
           | Some _ \<Rightarrow> None)
      | _ \<Rightarrow> None)"

text \<open>What a response carries.\<close>

datatype payload =
    Todos "row list"
  | Todo "row option"
  | Error string
  | Success bool
  | ValidationFailure
  | Text string

record response =
  status :: nat
  payload :: payload

text \<open>\<open>c.json(value, status)\<close>; the status is 200 when none is given.\<close>

definition json :: "payload \<Rightarrow> nat \<Rightarrow> response" where
  "json v st = \<lparr>status = st, payload = v\<rparr>"

text \<open>
  The framework's answer to a handler that throws, and to a request no route matches.
\<close>

definition internalServerError :: response where
  "internalServerError = \<lparr>status = 500, payload = Text ''Internal Server Error''\<rparr>"

definition notFound :: response where
  "notFound = \<lparr>status = 404, payload = Text ''404 Not Found''\<rparr>"

section \<open>The route handlers of todo-routes.ts\<close>

text \<open>
  Each handler takes what it reads from the context \<open>c\<close>: the session user's id
  (\<open>c.get("user")\<close>, \<open>None\<close> when there is no session), a path parameter, the validated
  body; and the table, which it returns updated with the response.
\<close>

text \<open>\<open>.get("/", ...)\<close>\<close>

definition get_handler :: "string option \<Rightarrow> db \<Rightarrow> response \<times> db" where
  "get_handler user d =
     (case user of
        None \<Rightarrow> (json (Error ''Unauthorized'') 401, d)
      | Some uid \<Rightarrow>
          (let userTodos = orderBy_desc_createdAt (select_where (\<lambda>r. userId r = uid) d)
           in (json (Todos userTodos) 200, d)))"

text \<open>\<open>.post("/", zValidator("json", createTodoSchema), ...)\<close>, after the validator.\<close>

definition post_handler :: "env \<Rightarrow> string option \<Rightarrow> jsstring \<Rightarrow> db \<Rightarrow> response \<times> db" where
  "post_handler e user ttl d =
     (case user of
        None \<Rightarrow> (json (Error ''Unauthorized'') 401, d)
      | Some uid \<Rightarrow>
          (let i = randomUUID e; n = timestamp (now e) in
           case insert_values
                  \<lparr>id' = i, userId = uid, title = text_column ttl, completed = False,
                   createdAt = n, updatedAt = n\<rparr> d of
             Inl _ \<Rightarrow> (internalServerError, d)
           | Inr d' \<Rightarrow>
               (let newTodo = limit 1 (select_where (\<lambda>r. id' r = i) d')
                in (json (Todo (at0 newTodo)) 201, d'))))"

text \<open>
  \<open>.set({ ...updates, updatedAt: new Date() })\<close>: a key of \<open>updates\<close> that is present
  sets its column (the title as the text column holds it), an absent one sets nothing.
\<close>

definition set_updates :: "updates \<Rightarrow> int \<Rightarrow> row \<Rightarrow> row" where
  "set_updates u n r =
     (let r1 = (case title_upd u of None \<Rightarrow> r | Some s \<Rightarrow> r\<lparr>title := text_column s\<rparr>);
          r2 = (case completed_upd u of None \<Rightarrow> r1 | Some c \<Rightarrow> r1\<lparr>completed := c\<rparr>)
      in r2\<lparr>updatedAt := n\<rparr>)"

text \<open>\<open>.patch("/:id", zValidator("json", updateTodoSchema), ...)\<close>, after the validator.\<close>

definition patch_handler ::
  "env \<Rightarrow> string option \<Rightarrow> string \<Rightarrow> updates \<Rightarrow> db \<Rightarrow> response \<times> db" where
  "patch_handler e user i u d =
     (case user of
        None \<Rightarrow> (json (Error ''Unauthorized'') 401, d)
      | Some uid \<Rightarrow>
          (let todo = limit 1 (select_where (\<lambda>r. id' r = i \<and> userId r = uid) d) in
           if length todo = 0 then (json (Error ''Todo not found'') 404, d)
           else
             (let d' = update_set_where (set_updates u (timestamp (now e))) (\<lambda>r. id' r = i) d;
                  updatedTodo = limit 1 (select_where (\<lambda>r. id' r = i) d')
              in (json (Todo (at0 updatedTodo)) 200, d'))))"

text \<open>\<open>.delete("/:id", ...)\<close>\<close>

definition delete_handler :: "string option \<Rightarrow> string \<Rightarrow> db \<Rightarrow> response \<times> db" where
  "delete_handler user i d =
     (case user of
        None \<Rightarrow> (json (Error ''Unauthorized'') 401, d)
      | Some uid \<Rightarrow>
          (let todo = limit 1 (select_where (\<lambda>r. id' r = i \<and> userId r = uid) d) in
           if length todo = 0 then (json (Error ''Todo not found'') 404, d)
           else (json (Success True) 200, delete_where (\<lambda>r. id' r = i) d)))"

text \<open>\<open>.delete("/completed", ...)\<close>\<close>

definition delete_completed_handler :: "string option \<Rightarrow> db \<Rightarrow> response \<times> db" where
  "delete_completed_handler user d =
     (case user of
        None \<Rightarrow> (json (Error ''Unauthorized'') 401, d)
      | Some uid \<Rightarrow>
          (json (Success True) 200,
           delete_where (\<lambda>r. userId r = uid \<and> completed r = True) d))"

section \<open>Routing\<close>

datatype http_method = GET | POST | PATCH | DELETE

text \<open>A request to the sub-application mounted at \<open>/todos\<close>: \<open>req_path\<close> is the
  segments of the path after the mount point (\<open>/todos\<close> itself is \<open>[]\<close>, \<open>/todos/completed\<close> is
  \<open>[''completed'']\<close>); \<open>session\<close> is the identity the auth collaborator resolved.\<close>

record request =
  session :: "string option"
  meth :: http_method
  req_path :: "string list"
  body :: json

text \<open>A segment of a route pattern: a literal, or a named parameter \<open>:name\<close>.\<close>

datatype seg = Lit string | Param string

text \<open>A pattern against a path: the parameters it binds, or no match. A parameter
  takes one non-empty segment.\<close>

fun match_path :: "seg list \<Rightarrow> string list \<Rightarrow> (string \<times> string) list option" where
  "match_path [] [] = Some []"
| "match_path (Lit l # ps) (s # ss) = (if s = l then match_path ps ss else None)"
| "match_path (Param n # ps) (s # ss) =
     (if s = [] then None
      else (case match_path ps ss of None \<Rightarrow> None | Some b \<Rightarrow> Some ((n, s) # b)))"
| "match_path _ _ = None"

text \<open>What a handler reads from the context.\<close>

record ctx =
  user :: "string option"
  params :: "(string \<times> string) list"
  req_json :: json

type_synonym handler = "env \<Rightarrow> ctx \<Rightarrow> db \<Rightarrow> response \<times> db"

text \<open>\<open>zValidator("json", schema)\<close> in front of a handler: a body the schema rejects is
  answered with 400 and the handler does not run.\<close>

definition zValidator :: "(json \<Rightarrow> 'a option) \<Rightarrow> (ctx \<Rightarrow> 'a \<Rightarrow> db \<Rightarrow> response \<times> db) \<Rightarrow>
    ctx \<Rightarrow> db \<Rightarrow> response \<times> db" where
  "zValidator schema h c d =
     (case schema (req_json c) of
        None \<Rightarrow> (json ValidationFailure 400, d)
      | Some v \<Rightarrow> h c v d)"

text \<open>\<open>c.req.param("id")\<close> in a handler of a route \<open>/:id\<close>. The parameter is bound
  whenever the route matched; the other branch stands for the exception a handler would
  raise on \<open>undefined\<close>.\<close>

definition with_param :: "string \<Rightarrow> ctx \<Rightarrow> (string \<Rightarrow> db \<Rightarrow> response \<times> db) \<Rightarrow> db \<Rightarrow>
    response \<times> db" where
  "with_param n c h d =
     (case map_of (params c) n of
        None \<Rightarrow> (internalServerError, d)
      | Some v \<Rightarrow> h v d)"

text \<open>The routes of \<open>todoRoutes\<close>, in the order the source registers them.\<close>

definition todoRoutes :: "(http_method \<times> seg list \<times> handler) list" where
  "todoRoutes =
     [(GET, [], \<lambda>e c. get_handler (user c)),
      (POST, [], \<lambda>e. zValidator createTodoSchema (\<lambda>c ttl. post_handler e (user c) ttl)),
      (PATCH, [Param ''id''],
         \<lambda>e. zValidator updateTodoSchema
                (\<lambda>c u. with_param ''id'' c (\<lambda>i. patch_handler e (user c) i u))),
      (DELETE, [Param ''id''], \<lambda>e c. with_param ''id'' c (delete_handler (user c))),
      (DELETE, [Lit ''completed''], \<lambda>e c. delete_completed_handler (user c))]"

text \<open>The framework runs the handlers that match a request in registration order, and
  a handler that returns a response ends the request. Every handler above returns one, so
  the first route that matches answers.\<close>

fun first_match ::
  "(http_method \<times> seg list \<times> handler) list \<Rightarrow> http_method \<Rightarrow> string list \<Rightarrow>
     (handler \<times> (string \<times> string) list) option" where
  "first_match [] m p = None"
| "first_match ((m', pat, h) # rs) m p =
     (if m' = m then
        (case match_path pat p of
           Some b \<Rightarrow> Some (h, b)
         | None \<Rightarrow> first_match rs m p)
      else first_match rs m p)"

text \<open>Modelled from the spec: the middleware \<open>authenticatedOnly\<close> of
  \<open>../middleware/auth\<close> is not among the sources. The spec has the core treat "no
  identity" uniformly as \<open>Unauthenticated\<close> (HTTP 401) for every operation: with no
  session the middleware answers 401, otherwise the request goes on.\<close>

definition authenticatedOnly :: "string option \<Rightarrow> response option" where
  "authenticatedOnly s =
     (case s of None \<Rightarrow> Some (json (Error ''Unauthorized'') 401) | Some _ \<Rightarrow> None)"

text \<open>\<open>todoRoutes\<close> serving one request: \<open>.use("*", authenticatedOnly)\<close> first, then the
  first matching route, or the framework's 404.\<close>

definition fetch :: "env \<Rightarrow> request \<Rightarrow> db \<Rightarrow> response \<times> db" where
  "fetch e rq d =
     (case authenticatedOnly (session rq) of
        Some r \<Rightarrow> (r, d)
      | None \<Rightarrow>
          (case first_match todoRoutes (meth rq) (req_path rq) of
             None \<Rightarrow> (notFound, d)
           | Some (h, b) \<Rightarrow> h e \<lparr>user = session rq, params = b, req_json = body rq\<rparr> d))"

text \<open>The store after a sequence of requests, each with the environment it reads.\<close>

fun run :: "db \<Rightarrow> (env \<times> request) list \<Rightarrow> db" where
  "run d [] = d"
| "run d ((e, rq) # evs) = run (snd (fetch e rq d)) evs"

section \<open>The client view-model of todo-list.tsx\<close>

datatype filter_t = all | active | completed_f

text \<open>\<open>filteredTodos\<close>; the filter \<open>"completed"\<close> is written \<open>completed_f\<close>.\<close>

definition filteredTodos :: "filter_t \<Rightarrow> 'ts todo list \<Rightarrow> 'ts todo list" where
  "filteredTodos f todos =
     filter (\<lambda>todo. if f = active then \<not> completed todo
                     else if f = completed_f then completed todo
                     else True) todos"

definition activeTodoCount :: "'ts todo list \<Rightarrow> nat" where
  "activeTodoCount todos = length (filter (\<lambda>t. \<not> completed t) todos)"

definition completedTodoCount :: "'ts todo list \<Rightarrow> nat" where
  "completedTodoCount todos = length (filter (\<lambda>t. completed t) todos)"

section \<open>Rows a response discloses\<close>

text \<open>The rows carried by a response: those of a list, the one of a single task, none
  otherwise.\<close>

definition returned :: "response \<Rightarrow> row list" where
  "returned r = (case payload r of Todos rs \<Rightarrow> rs | Todo (Some t) \<Rightarrow> [t] | _ \<Rightarrow> [])"

section \<open>The view-model's filter law\<close>

text \<open>C9. For every task list, the view under the filter "all" is the list itself; the
  "active" view holds exactly the tasks that are not completed and the "completed" view
  exactly those that are, so the two views share no task and together hold every task of
  the list as often as the list does; and the active count plus the completed count is
  the length of the list.\<close>

theorem filter_views_partition:
  "filteredTodos all todos = todos
   \<and> filteredTodos active todos = filter (\<lambda>t. \<not> completed t) todos
   \<and> filteredTodos completed_f todos = filter (\<lambda>t. completed t) todos
   \<and> set (filteredTodos active todos) \<inter> set (filteredTodos completed_f todos) = {}
   \<and> mset (filteredTodos active todos) + mset (filteredTodos completed_f todos) = mset todos
   \<and> activeTodoCount todos + completedTodoCount todos = length todos"
proof -
  have un: "mset (filter (\<lambda>t. \<not> completed t) todos) + mset (filter (\<lambda>t. completed t) todos)
            = mset todos"
    by (induction todos) simp_all
  have len: "length (filter (\<lambda>t. \<not> completed t) todos) + length (filter (\<lambda>t. completed t) todos)
             = length todos"
    by (induction todos) simp_all
  show ?thesis
    using un len
    by (auto simp: filteredTodos_def activeTodoCount_def completedTodoCount_def)
qed

theorem filter_views_partition_witness:
  "filteredTodos active
     [\<lparr>id' = ''u-1'', userId = ''alice'', title = [0x61], completed = False,
       createdAt = ''t1'', updatedAt = ''t1''\<rparr>,
      \<lparr>id' = ''u-2'', userId = ''alice'', title = [0x62], completed = True,
       createdAt = ''t2'', updatedAt = ''t3''\<rparr>]
   = [\<lparr>id' = ''u-1'', userId = ''alice'', title = [0x61], completed = False,
       createdAt = ''t1'', updatedAt = ''t1''\<rparr>]
   \<and> activeTodoCount
     [\<lparr>id' = ''u-1'', userId = ''alice'', title = [0x61], completed = False,
       createdAt = ''t1'', updatedAt = ''t1''\<rparr>,
      \<lparr>id' = ''u-2'', userId = ''alice'', title = [0x62], completed = True,
       createdAt = ''t2'', updatedAt = ''t3''\<rparr>]
   + completedTodoCount
     [\<lparr>id' = ''u-1'', userId = ''alice'', title = [0x61], completed = False,
       createdAt = ''t1'', updatedAt = ''t1''\<rparr>,
      \<lparr>id' = ''u-2'', userId = ''alice'', title = [0x62], completed = True,
       createdAt = ''t2'', updatedAt = ''t3''\<rparr>] = 2"
  using filter_views_partition
    [of "[\<lparr>id' = ''u-1'', userId = ''alice'', title = [0x61], completed = False,
       createdAt = ''t1'', updatedAt = ''t1''\<rparr>,
      \<lparr>id' = ''u-2'', userId = ''alice'', title = [0x62], completed = True,
       createdAt = ''t2'', updatedAt = ''t3''\<rparr>]"]
  by simp

section \<open>Auxiliary facts about the store and the routes\<close>

lemma text_column_well_formed: "well_formed s \<Longrightarrow> text_column s = s"
  by (induction s rule: text_column.induct) (simp_all split: if_splits)

lemma text_column_length: "length (text_column s) = length s"
  by (induction s rule: text_column.induct) simp_all

lemma id_unique:
  "distinct (map id' d) \<Longrightarrow> r \<in> set d \<Longrightarrow> r' \<in> set d \<Longrightarrow> id' r = id' r' \<Longrightarrow> r = r'"
  by (meson distinct_map inj_onD)

lemma set_updates_fields [simp]:
  "id' (set_updates u n r) = id' r"
  "userId (set_updates u n r) = userId r"
  "createdAt (set_updates u n r) = createdAt r"
  "updatedAt (set_updates u n r) = n"
  "title (set_updates u n r)
     = (case title_upd u of None \<Rightarrow> title r | Some s \<Rightarrow> text_column s)"
  "completed (set_updates u n r) = (case completed_upd u of None \<Rightarrow> completed r | Some c \<Rightarrow> c)"
  by (simp_all add: set_updates_def Let_def split: option.splits)

lemma owned_lookup_empty:
  "0 < n \<Longrightarrow> (limit n (select_where p d) = []) = (\<not> (\<exists>r \<in> set d. p r))"
  by (cases n) (auto simp: limit_def select_where_def filter_empty_conv)

lemma fetch_unauthenticated:
  "session rq = None \<Longrightarrow> fetch e rq d = (json (Error ''Unauthorized'') 401, d)"
  by (simp add: fetch_def authenticatedOnly_def)

lemma fetch_get:
  "session rq = Some u \<Longrightarrow> meth rq = GET \<Longrightarrow> req_path rq = [] \<Longrightarrow>
   fetch e rq d = get_handler (Some u) d"
  by (simp add: fetch_def authenticatedOnly_def todoRoutes_def)

lemma fetch_post:
  "session rq = Some u \<Longrightarrow> meth rq = POST \<Longrightarrow> req_path rq = [] \<Longrightarrow>
   fetch e rq d =
     (case createTodoSchema (body rq) of
        None \<Rightarrow> (json ValidationFailure 400, d)
      | Some ttl \<Rightarrow> post_handler e (Some u) ttl d)"
  by (simp add: fetch_def authenticatedOnly_def todoRoutes_def zValidator_def split: option.splits)

lemma fetch_patch:
  "session rq = Some u \<Longrightarrow> meth rq = PATCH \<Longrightarrow> req_path rq = [i] \<Longrightarrow> i \<noteq> [] \<Longrightarrow>
   fetch e rq d =
     (case updateTodoSchema (body rq) of
        None \<Rightarrow> (json ValidationFailure 400, d)
      | Some upd \<Rightarrow> patch_handler e (Some u) i upd d)"
  by (simp add: fetch_def authenticatedOnly_def todoRoutes_def zValidator_def with_param_def split: option.splits)

lemma fetch_delete:
  "session rq = Some u \<Longrightarrow> meth rq = DELETE \<Longrightarrow> req_path rq = [i] \<Longrightarrow> i \<noteq> [] \<Longrightarrow>
   fetch e rq d = delete_handler (Some u) i d"
  by (simp add: fetch_def authenticatedOnly_def todoRoutes_def with_param_def)

lemma fetch_cases:
  "fetch e rq d = (json (Error ''Unauthorized'') 401, d)
   \<or> fetch e rq d = (notFound, d)
   \<or> fetch e rq d = (json ValidationFailure 400, d)
   \<or> fetch e rq d = get_handler (session rq) d
   \<or> (\<exists>ttl. createTodoSchema (body rq) = Some ttl \<and> fetch e rq d = post_handler e (session rq) ttl d)
   \<or> (\<exists>i upd. updateTodoSchema (body rq) = Some upd \<and> fetch e rq d = patch_handler e (session rq) i upd d)
   \<or> (\<exists>i. fetch e rq d = delete_handler (session rq) i d)"
proof (cases "session rq")
  case None
  then show ?thesis by (simp add: fetch_unauthenticated)
next
  case (Some u)
  show ?thesis
  proof (cases "req_path rq")
    case Nil
    with Some show ?thesis
      by (cases "meth rq")
         (auto simp: fetch_def authenticatedOnly_def todoRoutes_def zValidator_def
               split: option.splits)
  next
    case (Cons i rest)
    show ?thesis
    proof (cases "rest = [] \<and> i \<noteq> []")
      case True
      with Some Cons show ?thesis
        by (cases "meth rq")
           (auto simp: fetch_def authenticatedOnly_def todoRoutes_def zValidator_def
                       with_param_def split: option.splits)
    next
      case False
      then have "\<And>n. match_path [Param n] (i # rest) = None"
        by (cases rest) auto
      moreover from False have "match_path [Lit ''completed''] (i # rest) = None"
        by (cases rest) auto
      ultimately show ?thesis using Some Cons
        by (cases "meth rq")
           (auto simp: fetch_def authenticatedOnly_def todoRoutes_def)
    qed
  qed
qed

lemma at0_limit_select:
  "0 < n \<Longrightarrow> at0 (limit n (select_where p d)) = List.find p d"
  by (induction d) (auto simp: at0_def limit_def select_where_def take_Cons' split: list.splits)

lemma find_unique:
  "distinct (map id' d) \<Longrightarrow> r \<in> set d \<Longrightarrow> List.find (\<lambda>x. id' x = id' r) d = Some r"
  by (induction d) auto

lemma update_map_frame:
  "(\<And>r. r \<in> set d \<Longrightarrow> p r \<Longrightarrow> userId r = u) \<Longrightarrow> (\<And>r. userId (f r) = userId r) \<Longrightarrow>
   filter (\<lambda>r. userId r \<noteq> u) (update_set_where f p d) = filter (\<lambda>r. userId r \<noteq> u) d"
  by (induction d) (auto simp: update_set_where_def)

lemma delete_frame:
  "(\<And>r. r \<in> set d \<Longrightarrow> p r \<Longrightarrow> userId r = u) \<Longrightarrow>
   filter (\<lambda>r. userId r \<noteq> u) (delete_where p d) = filter (\<lambda>r. userId r \<noteq> u) d"
  by (induction d) (auto simp: delete_where_def)

lemma ids_update [simp]:
  "(\<And>r. id' (f r) = id' r) \<Longrightarrow> map id' (update_set_where f p d) = map id' d"
  by (induction d) (auto simp: update_set_where_def)

lemma distinct_delete:
  "distinct (map id' d) \<Longrightarrow> distinct (map id' (delete_where p d))"
  by (simp add: delete_where_def distinct_map_filter)

lemma get_handler_frame: "snd (get_handler s d) = d"
  by (simp add: get_handler_def Let_def split: option.splits)

lemma post_handler_frame:
  "filter (\<lambda>r. userId r \<noteq> u) (snd (post_handler e (Some u) ttl d)) = filter (\<lambda>r. userId r \<noteq> u) d"
  by (simp add: post_handler_def Let_def insert_values_def internalServerError_def)

lemma patch_handler_frame:
  assumes "distinct (map id' d)"
  shows "filter (\<lambda>r. userId r \<noteq> u) (snd (patch_handler e (Some u) i upd d))
         = filter (\<lambda>r. userId r \<noteq> u) d"
proof (cases "\<exists>r \<in> set d. id' r = i \<and> userId r = u")
  case False
  then show ?thesis by (simp add: patch_handler_def Let_def owned_lookup_empty)
next
  case True
  then obtain t where t: "t \<in> set d" "id' t = i" "userId t = u" by blast
  have "\<And>r. r \<in> set d \<Longrightarrow> id' r = i \<Longrightarrow> userId r = u"
    using id_unique [OF assms] t by blast
  then have "filter (\<lambda>r. userId r \<noteq> u)
               (update_set_where (set_updates upd (timestamp (now e))) (\<lambda>r. id' r = i) d)
             = filter (\<lambda>r. userId r \<noteq> u) d"
    by (intro update_map_frame) simp_all
  then show ?thesis
    by (simp add: patch_handler_def Let_def)
qed

lemma delete_handler_frame:
  assumes "distinct (map id' d)"
  shows "filter (\<lambda>r. userId r \<noteq> u) (snd (delete_handler (Some u) i d))
         = filter (\<lambda>r. userId r \<noteq> u) d"
proof (cases "\<exists>r \<in> set d. id' r = i \<and> userId r = u")
  case False
  then show ?thesis by (simp add: delete_handler_def Let_def owned_lookup_empty)
next
  case True
  then obtain t where t: "t \<in> set d" "id' t = i" "userId t = u" by blast
  have "\<And>r. r \<in> set d \<Longrightarrow> id' r = i \<Longrightarrow> userId r = u"
    using id_unique [OF assms] t by blast
  then have "filter (\<lambda>r. userId r \<noteq> u) (delete_where (\<lambda>r. id' r = i) d)
             = filter (\<lambda>r. userId r \<noteq> u) d"
    by (intro delete_frame) simp_all
  then show ?thesis
    by (simp add: delete_handler_def Let_def)
qed

lemma delete_completed_handler_frame:
  "filter (\<lambda>r. userId r \<noteq> u) (snd (delete_completed_handler (Some u) d))
         = filter (\<lambda>r. userId r \<noteq> u) d"
proof -
  have "filter (\<lambda>r. userId r \<noteq> u) (delete_where (\<lambda>r. userId r = u \<and> completed r = True) d)
        = filter (\<lambda>r. userId r \<noteq> u) d"
    by (intro delete_frame) simp_all
  then show ?thesis
    by (simp add: delete_completed_handler_def)
qed

lemma handlers_distinct:
  assumes "distinct (map id' d)"
  shows "distinct (map id' (snd (get_handler s d)))"
    and "distinct (map id' (snd (post_handler e s ttl d)))"
    and "distinct (map id' (snd (patch_handler e s i upd d)))"
    and "distinct (map id' (snd (delete_handler s i d)))"
    and "distinct (map id' (snd (delete_completed_handler s d)))"
  using assms
  by (auto simp: get_handler_def post_handler_def patch_handler_def delete_handler_def
        delete_completed_handler_def Let_def insert_values_def distinct_delete
        split: option.splits)

lemma fetch_distinct:
  assumes "distinct (map id' d)"
  shows "distinct (map id' (snd (fetch e rq d)))"
  using fetch_cases [of e rq d] handlers_distinct [OF assms] assms
  by (elim disjE exE conjE) simp_all

lemma run_distinct:
  "distinct (map id' d) \<Longrightarrow> distinct (map id' (run d evs))"
  by (induction d evs rule: run.induct) (simp_all add: fetch_distinct)

lemma fetch_frame:
  assumes "distinct (map id' d)" and "session rq = Some u"
  shows "filter (\<lambda>r. userId r \<noteq> u) (snd (fetch e rq d)) = filter (\<lambda>r. userId r \<noteq> u) d"
  using fetch_cases [of e rq d] assms
    get_handler_frame post_handler_frame patch_handler_frame delete_handler_frame
  by (elim disjE exE conjE) simp_all

lemma returned_json [simp]:
  "returned (json (Todos rs) st) = rs"
  "returned (json (Todo x) st) = (case x of None \<Rightarrow> [] | Some t \<Rightarrow> [t])"
  "returned (json (Error m) st) = []"
  "returned (json (Success b) st) = []"
  "returned (json ValidationFailure st) = []"
  "returned internalServerError = []"
  "returned notFound = []"
  by (simp_all add: returned_def json_def internalServerError_def notFound_def split: option.splits)

lemma find_SomeD: "List.find p d = Some r \<Longrightarrow> r \<in> set d \<and> p r"
  by (auto simp: find_Some_iff)

lemma get_handler_returned:
  "r \<in> set (returned (fst (get_handler (Some u) d))) \<Longrightarrow> userId r = u"
  by (simp add: get_handler_def Let_def orderBy_desc_createdAt_def select_where_def)

lemma find_fresh_append:
  "i \<notin> set (map id' d) \<Longrightarrow> id' t = i \<Longrightarrow> List.find (\<lambda>r. id' r = i) (d @ [t]) = Some t"
  by (induction d) auto

lemma post_handler_fresh:
  assumes "randomUUID e \<notin> set (map id' d)"
  shows "post_handler e (Some u) ttl d =
     (json (Todo (Some \<lparr>id' = randomUUID e, userId = u, title = text_column ttl,
                        completed = False,
                        createdAt = timestamp (now e), updatedAt = timestamp (now e)\<rparr>)) 201,
      d @ [\<lparr>id' = randomUUID e, userId = u, title = text_column ttl, completed = False,
            createdAt = timestamp (now e), updatedAt = timestamp (now e)\<rparr>])"
  using assms
  by (simp add: post_handler_def Let_def insert_values_def at0_limit_select find_fresh_append)

lemma post_handler_clash:
  assumes "randomUUID e \<in> set (map id' d)"
  shows "post_handler e (Some u) ttl d = (internalServerError, d)"
  using assms by (simp add: post_handler_def Let_def insert_values_def)

lemma post_handler_returned:
  assumes "r \<in> set (returned (fst (post_handler e (Some u) ttl d)))"
  shows "userId r = u"
proof (cases "randomUUID e \<in> set (map id' d)")
  case True
  from assms show ?thesis unfolding post_handler_clash [OF True] by simp
next
  case False
  from assms show ?thesis unfolding post_handler_fresh [OF False] by auto
qed

lemma patch_handler_returned:
  assumes "distinct (map id' d)"
    and "r \<in> set (returned (fst (patch_handler e (Some u) i upd d)))"
  shows "userId r = u"
proof (cases "\<exists>r \<in> set d. id' r = i \<and> userId r = u")
  case False
  with assms(2) show ?thesis by (simp add: patch_handler_def Let_def owned_lookup_empty)
next
  case True
  then obtain t where t: "t \<in> set d" "id' t = i" "userId t = u" by blast
  have own: "\<And>r. r \<in> set d \<Longrightarrow> id' r = i \<Longrightarrow> userId r = u"
    using id_unique [OF assms(1)] t by blast
  from assms(2) True
  have "List.find (\<lambda>x. id' x = i)
          (update_set_where (set_updates upd (timestamp (now e))) (\<lambda>r. id' r = i) d) = Some r"
    by (simp add: patch_handler_def Let_def owned_lookup_empty at0_limit_select
             split: option.splits)
  then have mem: "r \<in> set (update_set_where (set_updates upd (timestamp (now e))) (\<lambda>r. id' r = i) d)"
    and ri: "id' r = i"
    by (auto dest: find_SomeD)
  from mem have "r \<in> (\<lambda>r. if id' r = i then set_updates upd (timestamp (now e)) r else r) ` set d"
    by (simp add: update_set_where_def)
  then obtain r0 where r0: "r0 \<in> set d"
    and r: "r = (if id' r0 = i then set_updates upd (timestamp (now e)) r0 else r0)"
    by blast
  show ?thesis
  proof (cases "id' r0 = i")
    case True
    with r0 own have "userId r0 = u" by blast
    moreover from r True have "r = set_updates upd (timestamp (now e)) r0" by simp
    ultimately show ?thesis by simp
  next
    case False
    with r have "r = r0" by simp
    with ri False show ?thesis by simp
  qed
qed

lemma delete_handlers_returned:
  "returned (fst (delete_handler s i d)) = []"
  "returned (fst (delete_completed_handler s d)) = []"
  by (simp_all add: delete_handler_def delete_completed_handler_def Let_def split: option.splits)

lemma fetch_returned:
  assumes "distinct (map id' d)" and "session rq = Some u"
    and "r \<in> set (returned (fst (fetch e rq d)))"
  shows "userId r = u"
proof -
  consider "fetch e rq d = (json (Error ''Unauthorized'') 401, d)"
    | "fetch e rq d = (notFound, d)"
    | "fetch e rq d = (json ValidationFailure 400, d)"
    | "fetch e rq d = get_handler (Some u) d"
    | ttl where "fetch e rq d = post_handler e (Some u) ttl d"
    | i upd where "fetch e rq d = patch_handler e (Some u) i upd d"
    | i where "fetch e rq d = delete_handler (Some u) i d"
    using fetch_cases [of e rq d] assms(2) by auto
  then show ?thesis
  proof cases
    case 1 with assms(3) show ?thesis by simp
  next
    case 2 with assms(3) show ?thesis by simp
  next
    case 3 with assms(3) show ?thesis by simp
  next
    case 4 with assms(3) show ?thesis by (simp add: get_handler_returned)
  next
    case 5 with assms(3) show ?thesis by (simp add: post_handler_returned)
  next
    case 6 with assms(1,3) show ?thesis by (simp add: patch_handler_returned)
  next
    case 7 with assms(3) show ?thesis by (simp add: delete_handlers_returned)
  qed
qed

lemma patch_handler_missing:
  "\<not> (\<exists>r \<in> set d. id' r = i \<and> userId r = u) \<Longrightarrow>
   patch_handler e (Some u) i upd d = (json (Error ''Todo not found'') 404, d)"
  by (simp add: patch_handler_def Let_def owned_lookup_empty)

lemma update_where_id:
  assumes "distinct (map id' d)" and "t \<in> set d"
  shows "update_set_where f (\<lambda>r. id' r = id' t) d = map (\<lambda>r. if r = t then f t else r) d"
  unfolding update_set_where_def
proof (rule map_cong [OF refl])
  fix r assume "r \<in> set d"
  then have "(id' r = id' t) = (r = t)"
    using id_unique [OF assms(1) _ assms(2)] by blast
  then show "(if id' r = id' t then f r else r) = (if r = t then f t else r)"
    by auto
qed

lemma patch_handler_owned:
  assumes "distinct (map id' d)" and "t \<in> set d" and "userId t = u"
  shows "patch_handler e (Some u) (id' t) upd d =
     (json (Todo (Some (set_updates upd (timestamp (now e)) t))) 200,
      map (\<lambda>r. if r = t then set_updates upd (timestamp (now e)) t else r) d)"
proof -
  let ?f = "set_updates upd (timestamp (now e))"
  let ?d' = "update_set_where ?f (\<lambda>r. id' r = id' t) d"
  have found: "limit 1 (select_where (\<lambda>r. id' r = id' t \<and> userId r = u) d) \<noteq> []"
    using assms(2,3) by (auto simp: owned_lookup_empty)
  have dist': "distinct (map id' ?d')"
    using assms(1) by simp
  have "?f t \<in> set ?d'"
    using assms(2) by (force simp: update_set_where_def)
  from find_unique [OF dist' this]
  have sel: "at0 (limit 1 (select_where (\<lambda>r. id' r = id' t) ?d')) = Some (?f t)"
    by (simp add: at0_limit_select)
  have "patch_handler e (Some u) (id' t) upd d = (json (Todo (Some (?f t))) 200, ?d')"
    using found sel by (simp add: patch_handler_def Let_def)
  then show ?thesis
    by (simp add: update_where_id [OF assms(1,2)])
qed

lemma delete_where_id:
  "distinct (map id' d) \<Longrightarrow> t \<in> set d \<Longrightarrow> delete_where (\<lambda>r. id' r = id' t) d = remove1 t d"
proof (induction d)
  case Nil
  then show ?case by simp
next
  case (Cons r d)
  show ?case
  proof (cases "r = t")
    case True
    with Cons.prems have "id' t \<notin> id' ` set d" by simp
    then have "\<forall>x \<in> set d. id' x \<noteq> id' t" by (metis imageI)
    then have "filter (\<lambda>x. id' x \<noteq> id' t) d = d" by (simp add: filter_id_conv)
    with True show ?thesis by (simp add: delete_where_def)
  next
    case False
    with Cons.prems have "t \<in> set d" and "id' r \<noteq> id' t" by auto
    with Cons False show ?thesis by (simp add: delete_where_def)
  qed
qed

lemma delete_handler_missing:
  "\<not> (\<exists>r \<in> set d. id' r = i \<and> userId r = u) \<Longrightarrow>
   delete_handler (Some u) i d = (json (Error ''Todo not found'') 404, d)"
  by (simp add: delete_handler_def Let_def owned_lookup_empty)

lemma delete_handler_owned:
  assumes "distinct (map id' d)" and "t \<in> set d" and "userId t = u"
  shows "delete_handler (Some u) (id' t) d = (json (Success True) 200, remove1 t d)"
proof -
  have "limit 1 (select_where (\<lambda>r. id' r = id' t \<and> userId r = u) d) \<noteq> []"
    using assms(2,3) by (auto simp: owned_lookup_empty)
  then show ?thesis
    by (simp add: delete_handler_def Let_def delete_where_id [OF assms(1,2)])
qed

lemma get_handler_list:
  "get_handler (Some u) d
     = (json (Todos (orderBy_desc_createdAt (select_where (\<lambda>r. userId r = u) d))) 200, d)"
  by (simp add: get_handler_def)

lemma orderBy_mset: "mset (orderBy_desc_createdAt rs) = mset rs"
  by (simp add: orderBy_desc_createdAt_def)

lemma orderBy_sorted:
  "sorted_wrt (\<lambda>a b. createdAt b \<le> createdAt a) (orderBy_desc_createdAt rs)"
proof -
  have "sorted (map (\<lambda>r. - createdAt r) (sort_key (\<lambda>r. - createdAt r) rs))"
    by (rule sorted_sort_key)
  then show ?thesis
    by (simp add: orderBy_desc_createdAt_def sorted_map)
qed

lemma timestamp_mono: "a \<le> b \<Longrightarrow> timestamp a \<le> timestamp b"
  by (simp add: timestamp_def zdiv_mono1)

lemma post_handler_rows:
  assumes "r \<in> set (snd (post_handler e s ttl d))"
  shows "r \<in> set d \<or> (createdAt r = timestamp (now e) \<and> updatedAt r = timestamp (now e))"
  using assms
  by (auto simp: post_handler_def Let_def insert_values_def split: option.splits if_splits)

lemma patch_handler_rows:
  assumes "r \<in> set (snd (patch_handler e s i upd d))"
  shows "r \<in> set d
       \<or> (\<exists>r0 \<in> set d. id' r0 = i \<and> createdAt r = createdAt r0 \<and> updatedAt r = timestamp (now e))"
proof (cases "r \<in> set d")
  case True
  then show ?thesis by simp
next
  case False
  with assms have "r \<in> set (update_set_where (set_updates upd (timestamp (now e))) (\<lambda>r. id' r = i) d)"
    by (auto simp: patch_handler_def Let_def split: option.splits if_splits)
  then have "r \<in> (\<lambda>r. if id' r = i then set_updates upd (timestamp (now e)) r else r) ` set d"
    by (simp add: update_set_where_def)
  then obtain r0 where r0: "r0 \<in> set d"
    and r: "r = (if id' r0 = i then set_updates upd (timestamp (now e)) r0 else r0)"
    by blast
  with False have "id' r0 = i" by (cases "id' r0 = i") simp_all
  with r have "r = set_updates upd (timestamp (now e)) r0" by simp
  with r0 \<open>id' r0 = i\<close> show ?thesis by auto
qed

lemma delete_handler_rows:
  "r \<in> set (snd (delete_handler s i d)) \<Longrightarrow> r \<in> set d"
  by (auto simp: delete_handler_def Let_def delete_where_def split: option.splits if_splits)

lemma fetch_rows:
  assumes "r \<in> set (snd (fetch e rq d))"
  shows "r \<in> set d
       \<or> (\<exists>r0 \<in> set d. createdAt r = createdAt r0 \<and> updatedAt r = timestamp (now e))
       \<or> (createdAt r = timestamp (now e) \<and> updatedAt r = timestamp (now e))"
proof -
  consider "snd (fetch e rq d) = d"
    | ttl where "fetch e rq d = post_handler e (session rq) ttl d"
    | i upd where "fetch e rq d = patch_handler e (session rq) i upd d"
    | i where "fetch e rq d = delete_handler (session rq) i d"
    using fetch_cases [of e rq d] get_handler_frame [of "session rq" d] by auto
  then show ?thesis
  proof cases
    case 1 with assms show ?thesis by simp
  next
    case 2 with assms post_handler_rows [of r e "session rq" _ d] show ?thesis by auto
  next
    case 3 with assms patch_handler_rows [of r e "session rq" _ _ d] show ?thesis by auto
  next
    case 4 with assms delete_handler_rows [of r "session rq" _ d] show ?thesis by auto
  qed
qed

lemma run_stamps:
  assumes "sorted (map (\<lambda>ev. now (fst ev)) evs)"
    and "\<forall>t \<in> set d. createdAt t \<le> updatedAt t
           \<and> (\<forall>ev \<in> set evs. createdAt t \<le> timestamp (now (fst ev)))"
  shows "\<forall>t \<in> set (run d evs). createdAt t \<le> updatedAt t"
  using assms
proof (induction evs arbitrary: d)
  case Nil
  then show ?case by simp
next
  case (Cons ev evs)
  obtain e rq where ev: "ev = (e, rq)" by (cases ev)
  let ?d' = "snd (fetch e rq d)"
  have later: "\<forall>x \<in> set evs. now e \<le> now (fst x)"
    using Cons.prems(1) ev by auto
  have "\<forall>t \<in> set ?d'. createdAt t \<le> updatedAt t
           \<and> (\<forall>x \<in> set evs. createdAt t \<le> timestamp (now (fst x)))"
  proof
    fix t assume "t \<in> set ?d'"
    from fetch_rows [OF this]
    consider "t \<in> set d"
      | r0 where "r0 \<in> set d" "createdAt t = createdAt r0" "updatedAt t = timestamp (now e)"
      | "createdAt t = timestamp (now e)" "updatedAt t = timestamp (now e)"
      by blast
    then show "createdAt t \<le> updatedAt t
           \<and> (\<forall>x \<in> set evs. createdAt t \<le> timestamp (now (fst x)))"
    proof cases
      case 1
      with Cons.prems(2) show ?thesis by simp
    next
      case 2
      with Cons.prems(2) ev show ?thesis by simp
    next
      case 3
      with later timestamp_mono show ?thesis by simp
    qed
  qed
  moreover have "sorted (map (\<lambda>ev. now (fst ev)) evs)"
    using Cons.prems(1) by simp
  ultimately have "\<forall>t \<in> set (run ?d' evs). createdAt t \<le> updatedAt t"
    by (rule Cons.IH [rotated])
  then show ?case by (simp add: ev)
qed

lemma delete_completed_route:
  "session rq = Some u \<Longrightarrow> meth rq = DELETE \<Longrightarrow> req_path rq = [''completed''] \<Longrightarrow>
   fetch e rq d = delete_handler (Some u) ''completed'' d"
  by (simp add: fetch_delete)

lemma delete_completed_handler_removes:
  "delete_completed_handler (Some u) d
     = (json (Success True) 200, filter (\<lambda>r. \<not> (userId r = u \<and> completed r)) d)"
  by (simp add: delete_completed_handler_def delete_where_def)

lemmas eval_defs =
  fetch_def authenticatedOnly_def todoRoutes_def zValidator_def with_param_def
  createTodoSchema_def updateTodoSchema_def json_member_def title_ok_def
  get_handler_def post_handler_def patch_handler_def delete_handler_def
  delete_completed_handler_def set_updates_def
  insert_values_def update_set_where_def delete_where_def select_where_def
  orderBy_desc_createdAt_def limit_def at0_def timestamp_def json_def Let_def
  high_surrogate_def low_surrogate_def

section \<open>Ownership\<close>

text \<open>C2. In every store reachable from the empty one by requests, whatever user B does
  (each of the five handlers run with B as the session user, or any request of B's sent
  through the routes) returns only rows owned by B, and leaves the rows not owned by B
  exactly as they were, in place and unchanged: a task of another user A is never
  returned to B, never updated and never removed by B.\<close>

theorem ownership_isolation:
  assumes "d = run [] evs"
    and "H \<in> {get_handler (Some B) d, post_handler e (Some B) ttl d,
               patch_handler e (Some B) i upd d, delete_handler (Some B) i d,
               delete_completed_handler (Some B) d,
               fetch e \<lparr>session = Some B, meth = m, req_path = p, body = b\<rparr> d}"
  shows "(\<forall>r \<in> set (returned (fst H)). userId r = B)
       \<and> filter (\<lambda>r. userId r \<noteq> B) (snd H) = filter (\<lambda>r. userId r \<noteq> B) d
       \<and> (\<forall>t \<in> set d. userId t \<noteq> B \<longrightarrow> t \<in> set (snd H) \<and> t \<notin> set (returned (fst H)))"
proof -
  let ?ok = "\<lambda>X. (\<forall>r \<in> set (returned (fst X)). userId r = B)
       \<and> filter (\<lambda>r. userId r \<noteq> B) (snd X) = filter (\<lambda>r. userId r \<noteq> B) d"
  have dist: "distinct (map id' d)"
    using assms(1) run_distinct [of "[]" evs] by simp
  have k1: "?ok (get_handler (Some B) d)"
    using get_handler_returned [of _ B d] by (simp add: get_handler_frame)
  have k2: "?ok (post_handler e (Some B) ttl d)"
    using post_handler_returned [of _ e B ttl d] by (simp add: post_handler_frame)
  have k3: "?ok (patch_handler e (Some B) i upd d)"
    using patch_handler_returned [OF dist, of _ e B i upd]
    by (simp add: patch_handler_frame [OF dist])
  have k4: "?ok (delete_handler (Some B) i d)"
    by (simp add: delete_handlers_returned delete_handler_frame [OF dist])
  have k5: "?ok (delete_completed_handler (Some B) d)"
    by (simp add: delete_handlers_returned delete_completed_handler_frame)
  have k6: "?ok (fetch e \<lparr>session = Some B, meth = m, req_path = p, body = b\<rparr> d)"
    using fetch_returned [OF dist, of "\<lparr>session = Some B, meth = m, req_path = p, body = b\<rparr>" B _ e]
    by (simp add: fetch_frame [OF dist])
  have ok: "?ok H"
    using assms(2) k1 k2 k3 k4 k5 k6 by blast
  have "t \<in> set (snd H)" if "t \<in> set d" "userId t \<noteq> B" for t
  proof -
    from that have "t \<in> set (filter (\<lambda>r. userId r \<noteq> B) d)" by simp
    then have "t \<in> set (filter (\<lambda>r. userId r \<noteq> B) (snd H))" using ok by simp
    then show ?thesis by simp
  qed
  with ok show ?thesis by blast
qed

theorem ownership_isolation_witness:
  "run [] [(\<lparr>randomUUID = ''u-1'', now = 1500\<rparr>,
            \<lparr>session = Some ''alice'', meth = POST, req_path = [],
             body = JObject [(''title'', JString [0x61])]\<rparr>)]
     = [\<lparr>id' = ''u-1'', userId = ''alice'', title = [0x61], completed = False,
         createdAt = 1000, updatedAt = 1000\<rparr>]
   \<and> filter (\<lambda>r. userId r \<noteq> ''bob'')
       (snd (patch_handler \<lparr>randomUUID = ''u-2'', now = 2500\<rparr> (Some ''bob'') ''u-1''
               \<lparr>title_upd = None, completed_upd = Some True\<rparr>
               (run [] [(\<lparr>randomUUID = ''u-1'', now = 1500\<rparr>,
                         \<lparr>session = Some ''alice'', meth = POST, req_path = [],
                          body = JObject [(''title'', JString [0x61])]\<rparr>)])))
     = [\<lparr>id' = ''u-1'', userId = ''alice'', title = [0x61], completed = False,
         createdAt = 1000, updatedAt = 1000\<rparr>]"
proof -
  have r: "run [] [(\<lparr>randomUUID = ''u-1'', now = 1500\<rparr>,
            \<lparr>session = Some ''alice'', meth = POST, req_path = [],
             body = JObject [(''title'', JString [0x61])]\<rparr>)]
     = [\<lparr>id' = ''u-1'', userId = ''alice'', title = [0x61], completed = False,
         createdAt = 1000, updatedAt = 1000\<rparr>]"
    by (simp add: eval_defs)
  have "patch_handler \<lparr>randomUUID = ''u-2'', now = 2500\<rparr> (Some ''bob'') ''u-1''
               \<lparr>title_upd = None, completed_upd = Some True\<rparr>
               (run [] [(\<lparr>randomUUID = ''u-1'', now = 1500\<rparr>,
                         \<lparr>session = Some ''alice'', meth = POST, req_path = [],
                          body = JObject [(''title'', JString [0x61])]\<rparr>)])
        \<in> {get_handler (Some ''bob'') (run [] [(\<lparr>randomUUID = ''u-1'', now = 1500\<rparr>,
                         \<lparr>session = Some ''alice'', meth = POST, req_path = [],
                          body = JObject [(''title'', JString [0x61])]\<rparr>)]),
            post_handler \<lparr>randomUUID = ''u-2'', now = 2500\<rparr> (Some ''bob'') []
              (run [] [(\<lparr>randomUUID = ''u-1'', now = 1500\<rparr>,
                         \<lparr>session = Some ''alice'', meth = POST, req_path = [],
                          body = JObject [(''title'', JString [0x61])]\<rparr>)]),
            patch_handler \<lparr>randomUUID = ''u-2'', now = 2500\<rparr> (Some ''bob'') ''u-1''
               \<lparr>title_upd = None, completed_upd = Some True\<rparr>
               (run [] [(\<lparr>randomUUID = ''u-1'', now = 1500\<rparr>,
                         \<lparr>session = Some ''alice'', meth = POST, req_path = [],
                          body = JObject [(''title'', JString [0x61])]\<rparr>)]),
            delete_handler (Some ''bob'') ''u-1''
               (run [] [(\<lparr>randomUUID = ''u-1'', now = 1500\<rparr>,
                         \<lparr>session = Some ''alice'', meth = POST, req_path = [],
                          body = JObject [(''title'', JString [0x61])]\<rparr>)]),
            delete_completed_handler (Some ''bob'')
               (run [] [(\<lparr>randomUUID = ''u-1'', now = 1500\<rparr>,
                         \<lparr>session = Some ''alice'', meth = POST, req_path = [],
                          body = JObject [(''title'', JString [0x61])]\<rparr>)]),
            fetch \<lparr>randomUUID = ''u-2'', now = 2500\<rparr>
               \<lparr>session = Some ''bob'', meth = GET, req_path = [], body = JNull\<rparr>
               (run [] [(\<lparr>randomUUID = ''u-1'', now = 1500\<rparr>,
                         \<lparr>session = Some ''alice'', meth = POST, req_path = [],
                          body = JObject [(''title'', JString [0x61])]\<rparr>)])}"
    by simp
  from ownership_isolation [OF refl this] r show ?thesis
    by simp
qed

section \<open>Partial update\<close>

text \<open>C3. For a task the caller owns, in a table whose ids are unique, a PATCH whose body
  holds only \<open>completed\<close> answers 200 with the task in which \<open>completed\<close> is the new
  value and \<open>updatedAt\<close> the current time, every other field (the title among them) as
  before; a PATCH whose body holds only a valid \<open>title\<close> changes the title (to
  the new one, as the text column holds it) and \<open>updatedAt\<close> and nothing else; and for every validated patch the handler sets exactly
  the fields the patch holds, and \<open>updatedAt\<close>. No other row changes.\<close>

theorem partial_update_keeps_other_fields:
  assumes "distinct (map id' d)" and "t \<in> set d" and "userId t = u" and "id' t \<noteq> []"
    and "title_ok s"
  shows
    "fetch e \<lparr>session = Some u, meth = PATCH, req_path = [id' t],
              body = JObject [(''completed'', JBool c)]\<rparr> d
       = (json (Todo (Some (t\<lparr>completed := c, updatedAt := timestamp (now e)\<rparr>))) 200,
          map (\<lambda>r. if r = t then t\<lparr>completed := c, updatedAt := timestamp (now e)\<rparr> else r) d)
     \<and> fetch e \<lparr>session = Some u, meth = PATCH, req_path = [id' t],
                body = JObject [(''title'', JString s)]\<rparr> d
       = (json (Todo (Some (t\<lparr>title := text_column s, updatedAt := timestamp (now e)\<rparr>))) 200,
          map (\<lambda>r. if r = t then t\<lparr>title := text_column s, updatedAt := timestamp (now e)\<rparr>
                  else r) d)
     \<and> patch_handler e (Some u) (id' t) upd d
       = (json (Todo (Some
            (t\<lparr>title := (case title_upd upd of None \<Rightarrow> title t | Some x \<Rightarrow> text_column x),
               completed := (case completed_upd upd of None \<Rightarrow> completed t | Some x \<Rightarrow> x),
               updatedAt := timestamp (now e)\<rparr>))) 200,
          map (\<lambda>r. if r = t then
            t\<lparr>title := (case title_upd upd of None \<Rightarrow> title t | Some x \<Rightarrow> text_column x),
              completed := (case completed_upd upd of None \<Rightarrow> completed t | Some x \<Rightarrow> x),
              updatedAt := timestamp (now e)\<rparr> else r) d)"
proof -
  have c: "updateTodoSchema (JObject [(''completed'', JBool c)])
           = Some \<lparr>title_upd = None, completed_upd = Some c\<rparr>"
    by (simp add: updateTodoSchema_def json_member_def)
  have s: "updateTodoSchema (JObject [(''title'', JString s)])
           = Some \<lparr>title_upd = Some s, completed_upd = None\<rparr>"
    using assms(5) by (simp add: updateTodoSchema_def json_member_def)
  have g: "set_updates upd n t
     = t\<lparr>title := (case title_upd upd of None \<Rightarrow> title t | Some x \<Rightarrow> text_column x),
         completed := (case completed_upd upd of None \<Rightarrow> completed t | Some x \<Rightarrow> x),
         updatedAt := n\<rparr>" for upd n
    by (simp add: set_updates_def Let_def split: option.splits)
  show ?thesis
    using assms(4)
    by (simp add: fetch_patch c s patch_handler_owned [OF assms(1-3)] g)
qed

theorem partial_update_keeps_other_fields_witness:
  "fetch \<lparr>randomUUID = ''u-2'', now = 2500\<rparr>
     \<lparr>session = Some ''alice'', meth = PATCH, req_path = [''u-1''],
      body = JObject [(''completed'', JBool True)]\<rparr>
     [\<lparr>id' = ''u-1'', userId = ''alice'', title = [0x61], completed = False,
       createdAt = 1000, updatedAt = 1000\<rparr>]
   = (json (Todo (Some \<lparr>id' = ''u-1'', userId = ''alice'', title = [0x61], completed = True,
                         createdAt = 1000, updatedAt = 2000\<rparr>)) 200,
      [\<lparr>id' = ''u-1'', userId = ''alice'', title = [0x61], completed = True,
        createdAt = 1000, updatedAt = 2000\<rparr>])
   \<and> fetch \<lparr>randomUUID = ''u-2'', now = 2500\<rparr>
     \<lparr>session = Some ''alice'', meth = PATCH, req_path = [''u-1''],
      body = JObject [(''title'', JString [0x62])]\<rparr>
     [\<lparr>id' = ''u-1'', userId = ''alice'', title = [0x61], completed = False,
       createdAt = 1000, updatedAt = 1000\<rparr>]
   = (json (Todo (Some \<lparr>id' = ''u-1'', userId = ''alice'', title = [0x62], completed = False,
                         createdAt = 1000, updatedAt = 2000\<rparr>)) 200,
      [\<lparr>id' = ''u-1'', userId = ''alice'', title = [0x62], completed = False,
        createdAt = 1000, updatedAt = 2000\<rparr>])"
  using partial_update_keeps_other_fields
    [of "[\<lparr>id' = ''u-1'', userId = ''alice'', title = [0x61], completed = False,
           createdAt = 1000, updatedAt = 1000\<rparr>]"
        "\<lparr>id' = ''u-1'', userId = ''alice'', title = [0x61], completed = False,
           createdAt = 1000, updatedAt = 1000\<rparr>"
        "''alice''" "[0x62]" "\<lparr>randomUUID = ''u-2'', now = 2500\<rparr>" True
        "\<lparr>title_upd = None, completed_upd = None\<rparr>"]
  by (simp add: title_ok_def timestamp_def high_surrogate_def low_surrogate_def)

section \<open>The empty patch\<close>

text \<open>C10. For a task the caller owns, a PATCH with the empty object as body passes the
  validator and answers 200 with the task, in which only \<open>updatedAt\<close> is refreshed: title
  and completed flag are as before, and no other row changes.\<close>

theorem empty_patch_accepted:
  assumes "distinct (map id' d)" and "t \<in> set d" and "userId t = u" and "id' t \<noteq> []"
  shows
    "fetch e \<lparr>session = Some u, meth = PATCH, req_path = [id' t], body = JObject []\<rparr> d
       = (json (Todo (Some (t\<lparr>updatedAt := timestamp (now e)\<rparr>))) 200,
          map (\<lambda>r. if r = t then t\<lparr>updatedAt := timestamp (now e)\<rparr> else r) d)"
proof -
  have "updateTodoSchema (JObject []) = Some \<lparr>title_upd = None, completed_upd = None\<rparr>"
    by (simp add: updateTodoSchema_def json_member_def)
  then show ?thesis
    using assms(4)
    by (simp add: fetch_patch patch_handler_owned [OF assms(1-3)] set_updates_def)
qed

theorem empty_patch_accepted_witness:
  "fetch \<lparr>randomUUID = ''u-2'', now = 2500\<rparr>
     \<lparr>session = Some ''alice'', meth = PATCH, req_path = [''u-1''], body = JObject []\<rparr>
     [\<lparr>id' = ''u-1'', userId = ''alice'', title = [0x61], completed = False,
       createdAt = 1000, updatedAt = 1000\<rparr>]
   = (json (Todo (Some \<lparr>id' = ''u-1'', userId = ''alice'', title = [0x61], completed = False,
                         createdAt = 1000, updatedAt = 2000\<rparr>)) 200,
      [\<lparr>id' = ''u-1'', userId = ''alice'', title = [0x61], completed = False,
        createdAt = 1000, updatedAt = 2000\<rparr>])"
  using empty_patch_accepted
    [of "[\<lparr>id' = ''u-1'', userId = ''alice'', title = [0x61], completed = False,
           createdAt = 1000, updatedAt = 1000\<rparr>]"
        "\<lparr>id' = ''u-1'', userId = ''alice'', title = [0x61], completed = False,
           createdAt = 1000, updatedAt = 1000\<rparr>"
        "''alice''" "\<lparr>randomUUID = ''u-2'', now = 2500\<rparr>"]
  by (simp add: timestamp_def)

section \<open>Deleting one task\<close>

text \<open>C4. In a table whose ids are unique, deleting one task answers 404 exactly when no
  row has the given id and the caller as owner (no such row at all, or a row of another
  user); in that case the table is unchanged. When the caller owns a task with that id the
  answer is 200 with the success acknowledgement, and the table is the old one without that
  one task: nothing else is removed.\<close>

theorem delete_one_not_found_iff:
  assumes "distinct (map id' d)"
  shows
    "(status (fst (delete_handler (Some u) i d)) = 404)
       = (\<not> (\<exists>r \<in> set d. id' r = i \<and> userId r = u))
     \<and> (\<not> (\<exists>r \<in> set d. id' r = i \<and> userId r = u) \<longrightarrow>
          delete_handler (Some u) i d = (json (Error ''Todo not found'') 404, d))
     \<and> (\<forall>t \<in> set d. id' t = i \<and> userId t = u \<longrightarrow>
          delete_handler (Some u) i d = (json (Success True) 200, remove1 t d)
          \<and> mset (remove1 t d) = mset d - {#t#})"
proof (cases "\<exists>r \<in> set d. id' r = i \<and> userId r = u")
  case False
  then show ?thesis
    by (auto simp: delete_handler_missing json_def)
next
  case True
  then obtain t where t: "t \<in> set d" "id' t = i" "userId t = u" by blast
  have "delete_handler (Some u) i d = (json (Success True) 200, remove1 x d)"
    if "x \<in> set d" "id' x = i" "userId x = u" for x
    using delete_handler_owned [OF assms that(1,3)] that(2) by simp
  then show ?thesis using True
    by (auto simp: json_def)
qed

theorem delete_one_not_found_iff_witness:
  "status (fst (delete_handler (Some ''bob'') ''u-1''
     [\<lparr>id' = ''u-1'', userId = ''alice'', title = [0x61], completed = False,
       createdAt = 1000, updatedAt = 1000\<rparr>,
      \<lparr>id' = ''u-2'', userId = ''bob'', title = [0x62], completed = False,
       createdAt = 2000, updatedAt = 2000\<rparr>])) = 404
   \<and> delete_handler (Some ''bob'') ''u-1''
     [\<lparr>id' = ''u-1'', userId = ''alice'', title = [0x61], completed = False,
       createdAt = 1000, updatedAt = 1000\<rparr>,
      \<lparr>id' = ''u-2'', userId = ''bob'', title = [0x62], completed = False,
       createdAt = 2000, updatedAt = 2000\<rparr>]
     = (json (Error ''Todo not found'') 404,
        [\<lparr>id' = ''u-1'', userId = ''alice'', title = [0x61], completed = False,
          createdAt = 1000, updatedAt = 1000\<rparr>,
         \<lparr>id' = ''u-2'', userId = ''bob'', title = [0x62], completed = False,
          createdAt = 2000, updatedAt = 2000\<rparr>])
   \<and> delete_handler (Some ''alice'') ''u-1''
     [\<lparr>id' = ''u-1'', userId = ''alice'', title = [0x61], completed = False,
       createdAt = 1000, updatedAt = 1000\<rparr>,
      \<lparr>id' = ''u-2'', userId = ''bob'', title = [0x62], completed = False,
       createdAt = 2000, updatedAt = 2000\<rparr>]
     = (json (Success True) 200,
        [\<lparr>id' = ''u-2'', userId = ''bob'', title = [0x62], completed = False,
          createdAt = 2000, updatedAt = 2000\<rparr>])"
  using delete_one_not_found_iff
    [of "[\<lparr>id' = ''u-1'', userId = ''alice'', title = [0x61], completed = False,
           createdAt = 1000, updatedAt = 1000\<rparr>,
          \<lparr>id' = ''u-2'', userId = ''bob'', title = [0x62], completed = False,
           createdAt = 2000, updatedAt = 2000\<rparr>]" "''bob''" "''u-1''"]
    delete_one_not_found_iff
    [of "[\<lparr>id' = ''u-1'', userId = ''alice'', title = [0x61], completed = False,
           createdAt = 1000, updatedAt = 1000\<rparr>,
          \<lparr>id' = ''u-2'', userId = ''bob'', title = [0x62], completed = False,
           createdAt = 2000, updatedAt = 2000\<rparr>]" "''alice''" "''u-1''"]
  by (simp add: json_def)

section \<open>Validation on create\<close>

text \<open>C5. A POST by an authenticated caller whose title is the empty string or longer than
  500 is answered with 400 by the validator, and the table is unchanged.\<close>

theorem create_rejects_invalid_title:
  assumes "s = [] \<or> 500 < length s"
    and "json_member kvs ''title'' = Some (JString s)"
  shows "fetch e \<lparr>session = Some u, meth = POST, req_path = [], body = JObject kvs\<rparr> d
         = (json ValidationFailure 400, d)"
proof -
  from assms(1) have "\<not> title_ok s" by (auto simp: title_ok_def)
  with assms(2) have "createTodoSchema (JObject kvs) = None"
    by (simp add: createTodoSchema_def)
  then show ?thesis by (simp add: fetch_post)
qed

theorem create_rejects_invalid_title_witness:
  "fetch \<lparr>randomUUID = ''u-1'', now = 1500\<rparr>
     \<lparr>session = Some ''alice'', meth = POST, req_path = [],
      body = JObject [(''title'', JString [])]\<rparr> []
   = (json ValidationFailure 400, [])
   \<and> fetch \<lparr>randomUUID = ''u-1'', now = 1500\<rparr>
     \<lparr>session = Some ''alice'', meth = POST, req_path = [],
      body = JObject [(''title'', JString (replicate 501 0x61))]\<rparr> []
   = (json ValidationFailure 400, [])"
  using create_rejects_invalid_title
    [of "[]" "[(''title'', JString [])]" "\<lparr>randomUUID = ''u-1'', now = 1500\<rparr>" "''alice''" "[]"]
    create_rejects_invalid_title
    [of "replicate 501 0x61" "[(''title'', JString (replicate 501 0x61))]"
        "\<lparr>randomUUID = ''u-1'', now = 1500\<rparr>" "''alice''" "[]"]
  by (simp add: json_member_def)

section \<open>Create, then list\<close>

text \<open>C6. A POST by an authenticated caller with a title of length 1 to 500, the generated
  id being new to the table, answers 201 with the created task: its title is the given one
  as the text column holds it (the given title itself when that is well-formed UTF-16, and
  of the same length always), it is not completed, and \<open>createdAt\<close> equals
  \<open>updatedAt\<close>; the task is appended to the table. The caller's list after the POST
  holds the tasks of the list before it and the created task, once, and the created task
  was not in the list before.\<close>

theorem create_then_list:
  assumes "1 \<le> length s" and "length s \<le> 500"
    and "json_member kvs ''title'' = Some (JString s)"
    and "randomUUID e \<notin> set (map id' d)"
    and "t = \<lparr>id' = randomUUID e, userId = u, title = text_column s, completed = False,
              createdAt = timestamp (now e), updatedAt = timestamp (now e)\<rparr>"
  shows
    "fetch e \<lparr>session = Some u, meth = POST, req_path = [], body = JObject kvs\<rparr> d
       = (json (Todo (Some t)) 201, d @ [t])
     \<and> (well_formed s \<longrightarrow> title t = s) \<and> length (title t) = length s
     \<and> completed t = False \<and> createdAt t = updatedAt t
     \<and> (\<exists>l l'.
          fetch e1 \<lparr>session = Some u, meth = GET, req_path = [], body = b1\<rparr> d
            = (json (Todos l) 200, d)
        \<and> fetch e2 \<lparr>session = Some u, meth = GET, req_path = [], body = b2\<rparr> (d @ [t])
            = (json (Todos l') 200, d @ [t])
        \<and> mset l' = add_mset t (mset l) \<and> t \<notin> set l)"
proof -
  have "createTodoSchema (JObject kvs) = Some s"
    using assms(1-3) by (simp add: createTodoSchema_def title_ok_def)
  then have post: "fetch e \<lparr>session = Some u, meth = POST, req_path = [], body = JObject kvs\<rparr> d
       = (json (Todo (Some t)) 201, d @ [t])"
    using post_handler_fresh [OF assms(4), of u s] assms(5) by (simp add: fetch_post)
  let ?l = "orderBy_desc_createdAt (select_where (\<lambda>r. userId r = u) d)"
  let ?l' = "orderBy_desc_createdAt (select_where (\<lambda>r. userId r = u) (d @ [t]))"
  have "id' t = randomUUID e" using assms(5) by simp
  with assms(4) have "t \<notin> set d" by (metis imageI set_map)
  then have new: "t \<notin> set ?l"
    by (simp add: orderBy_desc_createdAt_def select_where_def)
  have "mset ?l' = add_mset t (mset ?l)"
    using assms(5) by (simp add: orderBy_mset select_where_def)
  with new have "fetch e1 \<lparr>session = Some u, meth = GET, req_path = [], body = b1\<rparr> d
            = (json (Todos ?l) 200, d)
        \<and> fetch e2 \<lparr>session = Some u, meth = GET, req_path = [], body = b2\<rparr> (d @ [t])
            = (json (Todos ?l') 200, d @ [t])
        \<and> mset ?l' = add_mset t (mset ?l) \<and> t \<notin> set ?l"
    by (simp add: fetch_get get_handler_list)
  then have "\<exists>l l'.
          fetch e1 \<lparr>session = Some u, meth = GET, req_path = [], body = b1\<rparr> d
            = (json (Todos l) 200, d)
        \<and> fetch e2 \<lparr>session = Some u, meth = GET, req_path = [], body = b2\<rparr> (d @ [t])
            = (json (Todos l') 200, d @ [t])
        \<and> mset l' = add_mset t (mset l) \<and> t \<notin> set l"
    by blast
  moreover have "(well_formed s \<longrightarrow> title t = s) \<and> length (title t) = length s
      \<and> completed t = False \<and> createdAt t = updatedAt t"
    using assms(5) by (simp add: text_column_well_formed text_column_length)
  ultimately show ?thesis using post by blast
qed

theorem create_then_list_witness:
  "well_formed [0x61]
   \<and> fetch \<lparr>randomUUID = ''u-1'', now = 1500\<rparr>
     \<lparr>session = Some ''alice'', meth = POST, req_path = [],
      body = JObject [(''title'', JString [0x61])]\<rparr> []
   = (json (Todo (Some \<lparr>id' = ''u-1'', userId = ''alice'', title = [0x61], completed = False,
                         createdAt = 1000, updatedAt = 1000\<rparr>)) 201,
      [\<lparr>id' = ''u-1'', userId = ''alice'', title = [0x61], completed = False,
        createdAt = 1000, updatedAt = 1000\<rparr>])
   \<and> fetch \<lparr>randomUUID = ''u-2'', now = 2500\<rparr>
     \<lparr>session = Some ''alice'', meth = GET, req_path = [], body = JNull\<rparr>
     [\<lparr>id' = ''u-1'', userId = ''alice'', title = [0x61], completed = False,
       createdAt = 1000, updatedAt = 1000\<rparr>]
   = (json (Todos [\<lparr>id' = ''u-1'', userId = ''alice'', title = [0x61], completed = False,
                     createdAt = 1000, updatedAt = 1000\<rparr>]) 200,
      [\<lparr>id' = ''u-1'', userId = ''alice'', title = [0x61], completed = False,
        createdAt = 1000, updatedAt = 1000\<rparr>])"
proof -
  have "fetch \<lparr>randomUUID = ''u-2'', now = 2500\<rparr>
     \<lparr>session = Some ''alice'', meth = GET, req_path = [], body = JNull\<rparr>
     [\<lparr>id' = ''u-1'', userId = ''alice'', title = [0x61], completed = False,
       createdAt = 1000, updatedAt = 1000\<rparr>]
   = (json (Todos [\<lparr>id' = ''u-1'', userId = ''alice'', title = [0x61], completed = False,
                     createdAt = 1000, updatedAt = 1000\<rparr>]) 200,
      [\<lparr>id' = ''u-1'', userId = ''alice'', title = [0x61], completed = False,
        createdAt = 1000, updatedAt = 1000\<rparr>])"
    by (simp add: eval_defs)
  with create_then_list
    [of "[0x61]" "[(''title'', JString [0x61])]" "\<lparr>randomUUID = ''u-1'', now = 1500\<rparr>" "[]"
        "\<lparr>id' = ''u-1'', userId = ''alice'', title = [0x61], completed = False,
          createdAt = 1000, updatedAt = 1000\<rparr>" "''alice''"]
  show ?thesis
    by (simp add: json_member_def timestamp_def high_surrogate_def low_surrogate_def)
qed

text \<open>A title of one code unit, the unpaired surrogate D800, is valid for the schema; the
  task created and listed has the title U+FFFD, not the title sent.\<close>

theorem create_then_list_counterexample:
  "1 \<le> length [0xD800 :: 16 word] \<and> length [0xD800 :: 16 word] \<le> 500
   \<and> fetch \<lparr>randomUUID = ''u-1'', now = 1500\<rparr>
     \<lparr>session = Some ''alice'', meth = POST, req_path = [],
      body = JObject [(''title'', JString [0xD800])]\<rparr> []
   = (json (Todo (Some \<lparr>id' = ''u-1'', userId = ''alice'', title = [0xFFFD], completed = False,
                         createdAt = 1000, updatedAt = 1000\<rparr>)) 201,
      [\<lparr>id' = ''u-1'', userId = ''alice'', title = [0xFFFD], completed = False,
        createdAt = 1000, updatedAt = 1000\<rparr>])
   \<and> fetch \<lparr>randomUUID = ''u-2'', now = 2500\<rparr>
     \<lparr>session = Some ''alice'', meth = GET, req_path = [], body = JNull\<rparr>
     [\<lparr>id' = ''u-1'', userId = ''alice'', title = [0xFFFD], completed = False,
       createdAt = 1000, updatedAt = 1000\<rparr>]
   = (json (Todos [\<lparr>id' = ''u-1'', userId = ''alice'', title = [0xFFFD], completed = False,
                     createdAt = 1000, updatedAt = 1000\<rparr>]) 200,
      [\<lparr>id' = ''u-1'', userId = ''alice'', title = [0xFFFD], completed = False,
        createdAt = 1000, updatedAt = 1000\<rparr>])
   \<and> [0xFFFD] \<noteq> [0xD800 :: 16 word]"
  by (simp add: eval_defs)

section \<open>Listing\<close>

text \<open>C7. A GET by an authenticated caller answers 200 with a list that holds exactly the
  caller's rows, each as often as the table does (all of them, no page limit), ordered by
  \<open>createdAt\<close> descending; the list is empty exactly when the caller owns no row. The
  table is unchanged.\<close>

theorem list_sorted_desc:
  "\<exists>l. fetch e \<lparr>session = Some u, meth = GET, req_path = [], body = b\<rparr> d = (json (Todos l) 200, d)
       \<and> mset l = mset (filter (\<lambda>r. userId r = u) d)
       \<and> length l = length (filter (\<lambda>r. userId r = u) d)
       \<and> sorted_wrt (\<lambda>a b. createdAt b \<le> createdAt a) l
       \<and> ((l = []) = (filter (\<lambda>r. userId r = u) d = []))"
proof -
  let ?l = "orderBy_desc_createdAt (select_where (\<lambda>r. userId r = u) d)"
  have m: "mset ?l = mset (filter (\<lambda>r. userId r = u) d)"
    by (simp add: orderBy_mset select_where_def)
  then have len: "length ?l = length (filter (\<lambda>r. userId r = u) d)"
    by (rule mset_eq_length)
  then have "(?l = []) = (filter (\<lambda>r. userId r = u) d = [])"
    by (metis length_0_conv)
  with m len orderBy_sorted [of "select_where (\<lambda>r. userId r = u) d"]
  have "fetch e \<lparr>session = Some u, meth = GET, req_path = [], body = b\<rparr> d
          = (json (Todos ?l) 200, d)
       \<and> mset ?l = mset (filter (\<lambda>r. userId r = u) d)
       \<and> length ?l = length (filter (\<lambda>r. userId r = u) d)
       \<and> sorted_wrt (\<lambda>a b. createdAt b \<le> createdAt a) ?l
       \<and> ((?l = []) = (filter (\<lambda>r. userId r = u) d = []))"
    by (simp add: fetch_get get_handler_list)
  then show ?thesis by (rule exI)
qed

theorem list_sorted_desc_witness:
  "fetch \<lparr>randomUUID = ''u-4'', now = 9000\<rparr>
     \<lparr>session = Some ''alice'', meth = GET, req_path = [], body = JNull\<rparr>
     [\<lparr>id' = ''u-1'', userId = ''alice'', title = [0x61], completed = False,
       createdAt = 1000, updatedAt = 1000\<rparr>,
      \<lparr>id' = ''u-2'', userId = ''bob'', title = [0x62], completed = False,
       createdAt = 2000, updatedAt = 2000\<rparr>,
      \<lparr>id' = ''u-3'', userId = ''alice'', title = [0x63], completed = True,
       createdAt = 3000, updatedAt = 4000\<rparr>]
   = (json (Todos
       [\<lparr>id' = ''u-3'', userId = ''alice'', title = [0x63], completed = True,
         createdAt = 3000, updatedAt = 4000\<rparr>,
        \<lparr>id' = ''u-1'', userId = ''alice'', title = [0x61], completed = False,
         createdAt = 1000, updatedAt = 1000\<rparr>]) 200,
     [\<lparr>id' = ''u-1'', userId = ''alice'', title = [0x61], completed = False,
       createdAt = 1000, updatedAt = 1000\<rparr>,
      \<lparr>id' = ''u-2'', userId = ''bob'', title = [0x62], completed = False,
       createdAt = 2000, updatedAt = 2000\<rparr>,
      \<lparr>id' = ''u-3'', userId = ''alice'', title = [0x63], completed = True,
       createdAt = 3000, updatedAt = 4000\<rparr>])"
  using list_sorted_desc
    [of "\<lparr>randomUUID = ''u-4'', now = 9000\<rparr>" "''alice''" JNull
     "[\<lparr>id' = ''u-1'', userId = ''alice'', title = [0x61], completed = False,
       createdAt = 1000, updatedAt = 1000\<rparr>,
      \<lparr>id' = ''u-2'', userId = ''bob'', title = [0x62], completed = False,
       createdAt = 2000, updatedAt = 2000\<rparr>,
      \<lparr>id' = ''u-3'', userId = ''alice'', title = [0x63], completed = True,
       createdAt = 3000, updatedAt = 4000\<rparr>]"]
  by (simp add: eval_defs)

section \<open>Time stamps\<close>

text \<open>C8. When the clock readings of the requests never decrease, every task of every store
  reachable from the empty one has \<open>createdAt \<le> updatedAt\<close>. The two steps behind it:
  a row the create handler adds has \<open>createdAt = updatedAt\<close>; and the update handler
  keeps \<open>createdAt \<le> updatedAt\<close> on all rows provided the current time, as stored, is
  not before the creation time of the task it updates.\<close>

theorem updatedAt_not_before_createdAt:
  "(sorted (map (\<lambda>ev. now (fst ev)) evs) \<longrightarrow>
      (\<forall>t \<in> set (run [] evs). createdAt t \<le> updatedAt t))
   \<and> (\<forall>t \<in> set (snd (post_handler e s ttl d)). t \<notin> set d \<longrightarrow> createdAt t = updatedAt t)
   \<and> ((\<forall>t \<in> set d. createdAt t \<le> updatedAt t)
        \<and> (\<forall>t \<in> set d. id' t = i \<longrightarrow> createdAt t \<le> timestamp (now e)) \<longrightarrow>
      (\<forall>t \<in> set (snd (patch_handler e s i upd d)). createdAt t \<le> updatedAt t))"
proof (intro conjI impI)
  assume "sorted (map (\<lambda>ev. now (fst ev)) evs)"
  then show "\<forall>t \<in> set (run [] evs). createdAt t \<le> updatedAt t"
    by (rule run_stamps) simp
next
  show "\<forall>t \<in> set (snd (post_handler e s ttl d)). t \<notin> set d \<longrightarrow> createdAt t = updatedAt t"
  proof (intro ballI impI)
    fix t assume "t \<in> set (snd (post_handler e s ttl d))" and "t \<notin> set d"
    with post_handler_rows [of t e s ttl d] show "createdAt t = updatedAt t" by simp
  qed
next
  assume inv: "(\<forall>t \<in> set d. createdAt t \<le> updatedAt t)
        \<and> (\<forall>t \<in> set d. id' t = i \<longrightarrow> createdAt t \<le> timestamp (now e))"
  show "\<forall>t \<in> set (snd (patch_handler e s i upd d)). createdAt t \<le> updatedAt t"
  proof
    fix t assume "t \<in> set (snd (patch_handler e s i upd d))"
    from patch_handler_rows [OF this] inv show "createdAt t \<le> updatedAt t" by auto
  qed
qed

theorem updatedAt_not_before_createdAt_witness:
  "sorted (map (\<lambda>ev. now (fst ev))
     [(\<lparr>randomUUID = ''u-1'', now = 1500\<rparr>,
       \<lparr>session = Some ''alice'', meth = POST, req_path = [],
        body = JObject [(''title'', JString [0x61])]\<rparr>),
      (\<lparr>randomUUID = ''u-2'', now = 2500\<rparr>,
       \<lparr>session = Some ''alice'', meth = PATCH, req_path = [''u-1''],
        body = JObject [(''completed'', JBool True)]\<rparr>)])
   \<and> run []
     [(\<lparr>randomUUID = ''u-1'', now = 1500\<rparr>,
       \<lparr>session = Some ''alice'', meth = POST, req_path = [],
        body = JObject [(''title'', JString [0x61])]\<rparr>),
      (\<lparr>randomUUID = ''u-2'', now = 2500\<rparr>,
       \<lparr>session = Some ''alice'', meth = PATCH, req_path = [''u-1''],
        body = JObject [(''completed'', JBool True)]\<rparr>)]
     = [\<lparr>id' = ''u-1'', userId = ''alice'', title = [0x61], completed = True,
         createdAt = 1000, updatedAt = 2000\<rparr>]
   \<and> snd (post_handler \<lparr>randomUUID = ''u-1'', now = 1500\<rparr> (Some ''alice'') [0x61] [])
     = [\<lparr>id' = ''u-1'', userId = ''alice'', title = [0x61], completed = False,
         createdAt = 1000, updatedAt = 1000\<rparr>]
   \<and> snd (patch_handler \<lparr>randomUUID = ''u-2'', now = 2500\<rparr> (Some ''alice'') ''u-1''
            \<lparr>title_upd = None, completed_upd = Some True\<rparr>
            [\<lparr>id' = ''u-1'', userId = ''alice'', title = [0x61], completed = False,
              createdAt = 1000, updatedAt = 1000\<rparr>])
     = [\<lparr>id' = ''u-1'', userId = ''alice'', title = [0x61], completed = True,
         createdAt = 1000, updatedAt = 2000\<rparr>]
   \<and> createdAt \<lparr>id' = ''u-1'', userId = ''alice'', title = [0x61], completed = True,
         createdAt = 1000, updatedAt = 2000\<rparr>
     \<le> updatedAt \<lparr>id' = ''u-1'', userId = ''alice'', title = [0x61], completed = True,
         createdAt = (1000::int), updatedAt = 2000\<rparr>"
  using updatedAt_not_before_createdAt
    [of "[(\<lparr>randomUUID = ''u-1'', now = 1500\<rparr>,
       \<lparr>session = Some ''alice'', meth = POST, req_path = [],
        body = JObject [(''title'', JString [0x61])]\<rparr>),
      (\<lparr>randomUUID = ''u-2'', now = 2500\<rparr>,
       \<lparr>session = Some ''alice'', meth = PATCH, req_path = [''u-1''],
        body = JObject [(''completed'', JBool True)]\<rparr>)]"
      "\<lparr>randomUUID = ''u-2'', now = 2500\<rparr>" "Some ''alice''" "[0x61]"
      "[\<lparr>id' = ''u-1'', userId = ''alice'', title = [0x61], completed = False,
              createdAt = 1000, updatedAt = 1000\<rparr>]" "''u-1''"
      "\<lparr>title_upd = None, completed_upd = Some True\<rparr>"]
  by (simp add: eval_defs)

section \<open>The route for deleting completed tasks\<close>

text \<open>C1. A DELETE request for \<open>/todos/completed\<close> by an authenticated caller who owns a
  completed task: the route \<open>/:id\<close> is registered before \<open>/completed\<close> and matches
  the path with \<open>id = "completed"\<close>, so the request is answered by the delete-one handler.
  No row has that id: the answer is 404 "Todo not found" and the completed task stays in
  the store. The handler registered for \<open>/completed\<close>, run on the same store, answers 200
  with the success acknowledgement and removes the task.\<close>

theorem delete_completed_request_not_found:
  "fetch \<lparr>randomUUID = ''u-2'', now = 5000\<rparr>
     \<lparr>session = Some ''alice'', meth = DELETE, req_path = [''completed''], body = JNull\<rparr>
     [\<lparr>id' = ''u-1'', userId = ''alice'', title = [0x61], completed = True,
       createdAt = 1000, updatedAt = 2000\<rparr>]
   = (json (Error ''Todo not found'') 404,
      [\<lparr>id' = ''u-1'', userId = ''alice'', title = [0x61], completed = True,
        createdAt = 1000, updatedAt = 2000\<rparr>])
   \<and> delete_completed_handler (Some ''alice'')
       [\<lparr>id' = ''u-1'', userId = ''alice'', title = [0x61], completed = True,
         createdAt = 1000, updatedAt = 2000\<rparr>]
   = (json (Success True) 200, [])"
  by (simp add: delete_completed_route delete_handler_missing delete_completed_handler_removes)

end
